theory Spec2Isabelle
  imports Main "HOL-Library.Word" "HOL-Library.Multiset" "HOL-Library.Char_ord"
    "HOL-Library.List_Lexorder" "HOL-Library.Product_Lexorder"
begin

section \<open>Errors\<close>

text \<open>
  Every way the two scripts stop early is a value of \<open>error\<close>: \<open>sys.exit(1)\<close> is
  \<open>SystemExit 1\<close>; the exceptions raised by pandas and polars for a column that does
  not exist are \<open>KeyError\<close> and \<open>ColumnNotFoundError\<close>; \<open>DuplicateError\<close> is polars'
  refusal to build a frame with two columns of one name; \<open>ValueError\<close> is Python's
  \<open>int(x)\<close> on a string that is not a number; \<open>LibraryError\<close> stands for the
  exceptions of ete4 and polars on a taxid column that is not a null-free integer column.
\<close>

datatype error =
    SystemExit int
  | KeyError string
  | ColumnNotFoundError string
  | DuplicateError string
  | ValueError string
  | LibraryError

section \<open>summary\_igs.py: the record extractor\<close>

subsection \<open>Rows read from a GFF3 file\<close>

text \<open>
  \<open>pd.read_csv(..., usecols=["type", "start", "end", "attributes"])\<close> keeps four
  columns of the file. The text columns hold a string or NaN (\<open>None\<close>); \<open>start\<close> and
  \<open>end\<close> are parsed to pandas' \<open>int64\<close> columns, whose arithmetic is numpy's: it wraps
  around modulo \<open>2 ^ 64\<close> without any check. They are 64-bit words here, read as
  two's complement by \<open>sint\<close>. (\<open>end\<close> is a keyword of Isabelle; the field is
  named \<open>stop\<close>.)
\<close>

type_synonym int64 = "64 word"

record gff_row =
  type :: "string option"
  start :: int64
  stop :: int64
  attributes :: "string option"

text \<open>
  The record of one row, as \<open>df.to_dict(orient="records")\<close> returns it. \<open>Pair\<close> is the
  pair constructor of HOL, so that column is \<open>Pair_label\<close>.
\<close>

record igs_record =
  ID :: "string option"
  AN :: string
  UP :: string
  DOWN :: string
  Pair_label :: string
  Polarity :: string
  Length :: int64
  Merged :: int
  source_up :: "string option"
  source_dw :: "string option"

subsection \<open>Regular expressions\<close>

text \<open>
  A compiled pattern with one group is modelled by the function that \<open>str.extract\<close>
  applies to each string: the group of the leftmost match of \<open>re.search\<close>, or \<open>None\<close>.

  \<open>_RE_ID = re.compile(r"ID=([^;]+)")\<close>: the leftmost \<open>ID=\<close> that is followed by at
  least one character other than \<open>;\<close>, and the longest run of such characters after it.
\<close>

fun RE_ID :: "string \<Rightarrow> string option" where
  "RE_ID [] = None"
| "RE_ID (c # cs) =
     (let s = c # cs; g = takeWhile (\<lambda>x. x \<noteq> CHR '';'') (drop 3 s)
      in if take 3 s = ''ID='' \<and> g \<noteq> [] then Some g else RE_ID cs)"

text \<open>\<open>_RE_strand = re.compile(r"\|([+-])\|")\<close>: a sign between two bars.\<close>

fun RE_strand :: "string \<Rightarrow> string option" where
  "RE_strand (a # b # c # cs) =
     (if a = CHR ''|'' \<and> (b = CHR ''+'' \<or> b = CHR ''-'') \<and> c = CHR ''|''
      then Some [b] else RE_strand (b # c # cs))"
| "RE_strand _ = None"

text \<open>
  The four patterns of \<open>tigre.clean\<close> are not part of this repository; the extractor
  takes them as a parameter.
\<close>

record tigre_clean =
  RE_name_up :: "string \<Rightarrow> string option"
  RE_name_dw :: "string \<Rightarrow> string option"
  RE_source_up :: "string \<Rightarrow> string option"
  RE_source_dw :: "string \<Rightarrow> string option"

text \<open>\<open>Series.str.extract(pat, expand=False)\<close>: NaN stays NaN.\<close>

definition str_extract :: "(string \<Rightarrow> string option) \<Rightarrow> string option \<Rightarrow> string option" where
  "str_extract pat s = Option.bind s pat"

definition fillna :: "'a \<Rightarrow> 'a option \<Rightarrow> 'a" where
  "fillna d v = (case v of None \<Rightarrow> d | Some x \<Rightarrow> x)"

subsection \<open>summary\_igs\<close>

text \<open>
  The body of \<open>summary_igs\<close> works column by column; every column of the result is a
  function of the same row, so the model computes one record per row.
\<close>

definition up_strand :: "tigre_clean \<Rightarrow> gff_row \<Rightarrow> string" where
  "up_strand tc r =
     fillna ''+'' (str_extract RE_strand (str_extract (RE_source_up tc) (attributes r)))"

definition dw_strand :: "tigre_clean \<Rightarrow> gff_row \<Rightarrow> string" where
  "dw_strand tc r =
     fillna ''+'' (str_extract RE_strand (str_extract (RE_source_dw tc) (attributes r)))"

definition summary_row :: "tigre_clean \<Rightarrow> string \<Rightarrow> gff_row \<Rightarrow> igs_record" where
  "summary_row tc an r =
     (let up = fillna ''RS'' (str_extract (RE_name_up tc) (attributes r));
          down = fillna ''RE'' (str_extract (RE_name_dw tc) (attributes r))
      in \<lparr> ID = str_extract RE_ID (attributes r),
           AN = an,
           UP = up,
           DOWN = down,
           Pair_label = up @ ''-'' @ down,
           Polarity = up_strand tc r @ dw_strand tc r,
           Length = stop r - start r + 1,
           Merged = (if type r \<noteq> Some ''intergenic_region'' then 1 else 0),
           source_up = str_extract (RE_source_up tc) (attributes r),
           source_dw = str_extract (RE_source_dw tc) (attributes r) \<rparr>)"


subsection \<open>igs\_multiple: the parallel aggregator\<close>





section \<open>brms.py: tables\<close>

text \<open>
  A polars frame is a list of named columns, in order; a cell holds null, an integer
  or a string. A frame read from a file has distinct column names and columns of one
  length (\<open>wf_frame\<close>).
\<close>

datatype cell = Null | IntC int | StrC string

type_synonym frame = "(string \<times> cell list) list"

definition columns :: "frame \<Rightarrow> string list" where
  "columns df = map fst df"




text \<open>
  \<open>df.with_columns(expr.alias(name))\<close>: a column of that name is replaced where it
  stands, a new name is appended.
\<close>

definition with_column :: "string \<Rightarrow> cell list \<Rightarrow> frame \<Rightarrow> frame" where
  "with_column n v df =
     (if n \<in> set (columns df) then map (\<lambda>c. if fst c = n then (n, v) else c) df
      else df @ [(n, v)])"

text \<open>The integers of an integer column without nulls.\<close>

fun int_cells :: "cell list \<Rightarrow> int list option" where
  "int_cells [] = Some []"
| "int_cells (IntC n # cs) = map_option ((#) n) (int_cells cs)"
| "int_cells (_ # cs) = None"

subsection \<open>Integers as text\<close>

text \<open>
  \<open>Series.cast(pl.String)\<close> writes an integer in decimal, as Python's \<open>str\<close> does;
  \<open>int(x)\<close> reads it back. \<open>int_of_str\<close> covers the strings made of an optional sign
  and decimal digits, and is \<open>None\<close> (Python's \<open>ValueError\<close>) elsewhere.
\<close>

definition digit_char :: "nat \<Rightarrow> char" where
  "digit_char d = ''0123456789'' ! d"

function digits :: "nat \<Rightarrow> string" where
  "digits n = (if n < 10 then [digit_char n] else digits (n div 10) @ [digit_char (n mod 10)])"
  by pat_completeness auto
termination
  by (relation "measure id") auto

declare digits.simps [simp del]

definition str_of_int :: "int \<Rightarrow> string" where
  "str_of_int n = (if n < 0 then CHR ''-'' # digits (nat (- n)) else digits (nat n))"

definition is_digit :: "char \<Rightarrow> bool" where
  "is_digit c = (c \<in> set ''0123456789'')"

definition digit_val :: "char \<Rightarrow> nat" where
  "digit_val c = of_char c - 48"

definition nat_of_digits :: "string \<Rightarrow> nat option" where
  "nat_of_digits s =
     (if s \<noteq> [] \<and> list_all is_digit s
      then Some (foldl (\<lambda>a c. 10 * a + digit_val c) 0 s) else None)"

definition int_of_str :: "string \<Rightarrow> int option" where
  "int_of_str s =
     (case s of
        [] \<Rightarrow> None
      | c # ds \<Rightarrow>
          if c = CHR ''-'' then map_option (\<lambda>n. - int n) (nat_of_digits ds)
          else if c = CHR ''+'' then map_option int (nat_of_digits ds)
          else map_option int (nat_of_digits s))"

text \<open>\<open>{int(x) for x in xs}\<close>: one string that is no number raises.\<close>

definition ints_of :: "string set \<Rightarrow> int set option" where
  "ints_of xs = (if None \<in> int_of_str ` xs then None else Some ((the \<circ> int_of_str) ` xs))"

section \<open>brms.py: the taxonomy gateway\<close>

text \<open>
  An ete4 tree: a node has a name and children, and \<open>tree.leaves()\<close> yields the nodes
  without children.
\<close>

datatype tree = Tree string "tree list"

fun leaves :: "tree \<Rightarrow> string list" where
  "leaves (Tree name children) =
     (if children = [] then [name] else concat (map leaves children))"

text \<open>
  The taxonomy database and the tree library are outside the repository. A run sees
  them as: the tree that \<open>ncbi.get_topology\<close> builds for a column of taxids, what
  \<open>tree.to_ultrametric()\<close> makes of a tree, and the rows \<open>(taxid, parent)\<close> of the table
  \<open>species\<close> that \<open>ncbi.db\<close> queries. With \<open>update_taxa\<close> the value describes the database
  after the update.
\<close>

record ete4 =
  get_topology :: "int list \<Rightarrow> tree"
  to_ultrametric :: "tree \<Rightarrow> tree"
  species :: "(int \<times> int) list"

text \<open>
  What a run does besides computing: the log, and the calls that reach the gateway or
  the file system, in order. A message that joins a set (\<open>', '.join(missing)\<close>) keeps
  the set, since the order of the join is not fixed.
\<close>

datatype level = DEBUG | INFO | WARNING | ERROR

datatype event =
    Log level string
  | LogSet level string "string set"
  | GetTopology "int list"
  | FirstDescendants "int set"
  | TreeWrite tree
  | SinkCsv frame

text \<open>
  \<open>get_first_descendants\<close>: the query
  \<open>SELECT parent, MIN(taxid) FROM species WHERE parent IN (taxids) GROUP BY parent\<close>,
  and \<open>dict\<close> of its rows.
\<close>

definition get_first_descendants :: "ete4 \<Rightarrow> int set \<Rightarrow> (int \<rightharpoonup> int)" where
  "get_first_descendants ncbi_taxa taxids =
     (\<lambda>parent.
        let group = map fst (filter (\<lambda>row. snd row = parent) (species ncbi_taxa))
        in if parent \<in> taxids \<and> group \<noteq> [] then Some (Min (set group)) else None)"

definition validade_tree :: "tree \<Rightarrow> string set \<Rightarrow> (string set \<times> string set) \<times> event list" where
  "validade_tree tree taxa =
     (let tree_taxa = set (leaves tree);
          missing_in_tree = taxa - tree_taxa;
          extra_in_tree = tree_taxa - taxa
      in ((missing_in_tree, extra_in_tree),
          (if missing_in_tree \<noteq> {}
           then [LogSet WARNING ''Taxa missing in tree: '' missing_in_tree] else []) @
          (if extra_in_tree \<noteq> {}
           then [LogSet ERROR ''Extra taxa in tree: '' extra_in_tree] else [])))"

text \<open>
  \<open>pl.col(c).replace_strict(mapping, default=pl.col(d))\<close> on integer columns: a value
  that is a key of the mapping becomes its image, any other the default of its row.
\<close>

definition replace_strict :: "(int \<rightharpoonup> int) \<Rightarrow> int list \<Rightarrow> int list \<Rightarrow> int list" where
  "replace_strict mapping dflt col =
     map (\<lambda>(x, d). case mapping x of Some y \<Rightarrow> y | None \<Rightarrow> d) (zip col dflt)"

section \<open>brms.py: run\_single\<close>

subsection \<open>Reconciliation (lines 111 to 187)\<close>

text \<open>
  The three nested blocks of \<open>run_single\<close> are three definitions, innermost first.
  Each returns what the block leaves behind: the table and the tree, or the error that
  ends the run, and the events of the block.

  Lines 145 to 180: the second replacement. \<open>taxon_tree\<close> is the column of that name
  as the first replacement wrote it.
\<close>

definition second_replacement ::
  "ete4 \<Rightarrow> frame \<Rightarrow> int list \<Rightarrow> string set \<Rightarrow> (error + frame \<times> tree) \<times> event list" where
  "second_replacement ncbi tsv taxon_tree missing_in_tree2 =
     (let ev1 = [Log WARNING
                   ''Some taxa are still missing in the tree after replacement, going for second round.'',
                 LogSet DEBUG ''Missing taxa: '' missing_in_tree2]
      in case ints_of missing_in_tree2 of
           None \<Rightarrow> (Inl (ValueError ''int''), ev1)
         | Some missing_int2 \<Rightarrow>
             let descendants2 = get_first_descendants ncbi missing_int2;
                 taxon_tree' = replace_strict descendants2 taxon_tree taxon_tree;
                 tsv = with_column ''taxon_tree'' (map IntC taxon_tree') tsv;
                 tree = to_ultrametric ncbi (get_topology ncbi taxon_tree');
                 taxa_in_tsv3 = set (map str_of_int taxon_tree');
                 ((missing_in_tree3, _), ev3) = validade_tree tree taxa_in_tsv3;
                 ev = ev1 @ [FirstDescendants missing_int2, GetTopology taxon_tree',
                             Log INFO ''Re-re-validation of the tree after replacement...''] @ ev3
             in if missing_in_tree3 \<noteq> {}
                then (Inl (SystemExit 1),
                      ev @ [Log ERROR
                              ''Some taxa are still missing in the tree after second replacement, we give up.'',
                            LogSet DEBUG ''Missing taxa: '' missing_in_tree3])
                else (Inr (tsv, tree),
                      ev @ [Log INFO
                              ''All missing taxa replaced successfully by their first descendant, first descendant.'']))"

text \<open>Lines 124 to 185: the first replacement, from the column \<open>ncbi_taxid\<close>.\<close>

definition first_replacement ::
  "ete4 \<Rightarrow> frame \<Rightarrow> int list \<Rightarrow> string set \<Rightarrow> (error + frame \<times> tree) \<times> event list" where
  "first_replacement ncbi tsv ncbi_taxid missing_in_tree =
     (let ev1 = [Log INFO ''Replacing missing taxa with first descendant...'']
      in case ints_of missing_in_tree of
           None \<Rightarrow> (Inl (ValueError ''int''), ev1)
         | Some missing_int \<Rightarrow>
             let descendants = get_first_descendants ncbi missing_int;
                 taxon_tree = replace_strict descendants ncbi_taxid ncbi_taxid;
                 tsv = with_column ''taxon_tree'' (map IntC taxon_tree) tsv;
                 tree = to_ultrametric ncbi (get_topology ncbi taxon_tree);
                 taxa_in_tsv2 = set (map str_of_int taxon_tree);
                 ((missing_in_tree2, _), ev2) = validade_tree tree taxa_in_tsv2;
                 ev = ev1 @ [FirstDescendants missing_int, GetTopology taxon_tree,
                             Log INFO ''Re-validation of the tree after replacement...''] @ ev2
             in if missing_in_tree2 \<noteq> {}
                then (case second_replacement ncbi tsv taxon_tree missing_in_tree2 of
                        (res, ev') \<Rightarrow> (res, ev @ ev'))
                else (Inr (tsv, tree),
                      ev @ [Log INFO
                              ''All missing taxa replaced successfully by their first descendant.'']))"

text \<open>
  Lines 111 to 187: the first tree, its validation, the replacements, and
  \<open>tree.write\<close>. \<open>tsv["ncbi_taxid"]\<close> raises when the column does not exist; a column
  with a null or a string is outside the model (\<open>LibraryError\<close>).
\<close>

definition reconcile :: "ete4 \<Rightarrow> frame \<Rightarrow> (error + frame \<times> tree) \<times> event list" where
  "reconcile ncbi tsv =
     (case map_of tsv ''ncbi_taxid'' of
        None \<Rightarrow> (Inl (ColumnNotFoundError ''ncbi_taxid''), [])
      | Some cells \<Rightarrow>
         (case int_cells cells of
            None \<Rightarrow> (Inl LibraryError, [])
          | Some ncbi_taxid \<Rightarrow>
              let tree = to_ultrametric ncbi (get_topology ncbi ncbi_taxid);
                  taxa_in_tsv = set (map str_of_int ncbi_taxid);
                  ((missing_in_tree, extra_in_tree), ev1) = validade_tree tree taxa_in_tsv;
                  ev = [Log INFO ''Creating ultrametric tree for BRMS...'', GetTopology ncbi_taxid,
                        Log INFO ''Tree created, now validating it...''] @ ev1;
                  (tsv, ev) =
                    (if missing_in_tree = {} \<and> extra_in_tree = {}
                     then (with_column ''taxon_tree'' (map IntC ncbi_taxid) tsv,
                           ev @ [Log INFO ''Tree validation successful: all taxa match.''])
                     else (tsv, ev));
                  (res, ev) =
                    (if missing_in_tree \<noteq> {}
                     then (case first_replacement ncbi tsv ncbi_taxid missing_in_tree of
                             (res, ev') \<Rightarrow> (res, ev @ ev'))
                     else (Inr (tsv, tree), ev))
              in (case res of
                    Inl e \<Rightarrow> (Inl e, ev)
                  | Inr (tsv, tree) \<Rightarrow> (Inr (tsv, tree), ev @ [TreeWrite tree]))))"

subsection \<open>Join and derive (lines 189 to 203)\<close>

text \<open>
  \<open>left.join(right, on=key, how="left")\<close>: every row of the left table, once for each
  row of the right table with the same key that is not null, and once with nulls when
  there is none. \<open>matches\<close> lists the rows of the right table for one key;
  \<open>join_indices\<close> lists the pairs of row numbers, in the order of the left table; the columns of the result are gathered from them. The key column comes from
  the left table only, and a right column whose name the left table has too gets the
  suffix \<open>_right\<close>.
\<close>

definition matches :: "cell list \<Rightarrow> cell \<Rightarrow> nat list" where
  "matches rk v = filter (\<lambda>j. v \<noteq> Null \<and> rk ! j = v) [0..<length rk]"

definition join_indices :: "cell list \<Rightarrow> cell list \<Rightarrow> (nat \<times> nat option) list" where
  "join_indices lk rk =
     concat (map (\<lambda>i.
        let ms = matches rk (lk ! i)
        in if ms = [] then [(i, None)] else map (\<lambda>j. (i, Some j)) ms) [0..<length lk])"

definition gather :: "cell list \<Rightarrow> nat list \<Rightarrow> cell list" where
  "gather xs idx = map (\<lambda>i. xs ! i) idx"

definition gather_opt :: "cell list \<Rightarrow> nat option list \<Rightarrow> cell list" where
  "gather_opt xs idx = map (\<lambda>j. case j of None \<Rightarrow> Null | Some j \<Rightarrow> xs ! j) idx"

definition right_columns :: "frame \<Rightarrow> frame \<Rightarrow> string \<Rightarrow> nat option list \<Rightarrow> frame" where
  "right_columns left right on idx =
     map (\<lambda>c. (if fst c \<in> set (columns left) then fst c @ ''_right'' else fst c,
               gather_opt (snd c) idx))
         (filter (\<lambda>c. fst c \<noteq> on) right)"

definition join_left :: "frame \<Rightarrow> frame \<Rightarrow> string \<Rightarrow> error + frame" where
  "join_left left right on =
     (case (map_of left on, map_of right on) of
        (Some lk, Some rk) \<Rightarrow>
          let idx = join_indices lk rk;
              out = map (\<lambda>c. (fst c, gather (snd c) (map fst idx))) left @
                    right_columns left right on (map snd idx)
          in if distinct (columns out) then Inr out else Inl (DuplicateError ''_right'')
      | _ \<Rightarrow> Inl (ColumnNotFoundError on))"





subsection \<open>The whole run\<close>






subsection \<open>The values a run goes through\<close>

text \<open>
  Names for the values of the variables of \<open>run_single\<close>, used to state what a run does:
  the tree built for a column of taxids (\<open>tree\<close> after \<open>to_ultrametric\<close>), the taxids of
  the column that are no leaf of it (\<open>missing_int\<close>), the leaves that are not in the
  column (\<open>extra_in_tree\<close>), and the column after one replacement (\<open>taxon_tree\<close>).
\<close>

definition tree_of :: "ete4 \<Rightarrow> int list \<Rightarrow> tree" where
  "tree_of ncbi col = to_ultrametric ncbi (get_topology ncbi col)"

definition missing_ids :: "ete4 \<Rightarrow> int list \<Rightarrow> int set" where
  "missing_ids ncbi col = {n \<in> set col. str_of_int n \<notin> set (leaves (tree_of ncbi col))}"

definition extra_leaves :: "ete4 \<Rightarrow> int list \<Rightarrow> string set" where
  "extra_leaves ncbi col = set (leaves (tree_of ncbi col)) - set (map str_of_int col)"

definition substitute :: "ete4 \<Rightarrow> int list \<Rightarrow> int list" where
  "substitute ncbi col = replace_strict (get_first_descendants ncbi (missing_ids ncbi col)) col col"

text \<open>The calls of a run that build a tree, and those that ask for descendants.\<close>

definition tree_constructions :: "event list \<Rightarrow> nat" where
  "tree_constructions ev =
     length (filter (\<lambda>e. case e of GetTopology _ \<Rightarrow> True | _ \<Rightarrow> False) ev)"

definition substitution_rounds :: "event list \<Rightarrow> nat" where
  "substitution_rounds ev =
     length (filter (\<lambda>e. case e of FirstDescendants _ \<Rightarrow> True | _ \<Rightarrow> False) ev)"

text \<open>The trees a run hands to \<open>tree.write\<close>.\<close>

definition trees_written :: "event list \<Rightarrow> tree list" where
  "trees_written ev = concat (map (\<lambda>e. case e of TreeWrite t \<Rightarrow> [t] | _ \<Rightarrow> []) ev)"

section \<open>Concrete inputs\<close>

text \<open>
  Stand-ins for the patterns of \<open>tigre.clean\<close>, for the examples below: the names are
  never found, the source descriptor upstream is the first three characters of the
  attributes and the one downstream is the rest.
\<close>

definition toy_patterns :: tigre_clean where
  "toy_patterns =
     \<lparr> RE_name_up = (\<lambda>s. None), RE_name_dw = (\<lambda>s. None),
       RE_source_up = (\<lambda>s. Some (take 3 s)), RE_source_dw = (\<lambda>s. Some (drop 3 s)) \<rparr>"

definition row_100_199 :: gff_row where
  "row_100_199 =
     \<lparr> type = Some ''intergenic_region'', start = 100, stop = 199,
       attributes = Some ''|+||-|;ID=igr1'' \<rparr>"

definition row_overflow :: gff_row where
  "row_overflow =
     \<lparr> type = Some ''intergenic_region'', start = 0, stop = 9223372036854775807,
       attributes = Some ''ID=igr1'' \<rparr>"


text \<open>
  A stand-in for the gateway: the tree is a star whose tips are the taxids of the
  column that the taxonomy knows as tips, followed by the given extra tips; the table
  \<open>species\<close> has the taxon 100 with the children 105, 102 and 110, and a chain below 102.
\<close>

definition star_tree :: "int list \<Rightarrow> tree" where
  "star_tree tips = Tree ''root'' (map (\<lambda>n. Tree (str_of_int n) []) tips)"

definition toy_ncbi :: "int list \<Rightarrow> int list \<Rightarrow> ete4" where
  "toy_ncbi known extra =
     \<lparr> get_topology = (\<lambda>ids. star_tree (filter (\<lambda>n. n \<in> set known) ids @ extra)),
       to_ultrametric = (\<lambda>t. t),
       species = [(105, 100), (102, 100), (110, 100), (200, 102), (300, 200)] \<rparr>"

definition toy_tsv :: "int \<Rightarrow> frame" where
  "toy_tsv taxid =
     [(''AN'', [StrC ''A'']), (''GI'', [IntC 7]), (''ncbi_taxid'', [IntC taxid]),
      (''Species'', [StrC ''s'']), (''ncbi_name'', [StrC ''n'']), (''Genome_length'', [IntC 1000])]"

text \<open>
  A summary table as \<open>igs_multiple\<close> writes it, with two records of the sample \<open>A\<close>
  and one of a sample \<open>B\<close>; a stand-in for the logarithm; an R script that succeeds.
\<close>

definition toy_igs :: frame where
  "toy_igs =
     [(''ID'', [StrC ''a1'', StrC ''a2'', StrC ''b1'']),
      (''AN'', [StrC ''A'', StrC ''A'', StrC ''B'']),
      (''Polarity'', [StrC ''++'', StrC ''+-'', StrC ''-+'']),
      (''Length'', [IntC 100, IntC 10, IntC 1])]"




text \<open>A metadata table with one row for the sample \<open>A\<close> and none for \<open>B\<close>.\<close>

definition one_tsv :: frame where
  "one_tsv = [(''AN'', [StrC ''A'']), (''Species'', [StrC ''s1''])]"


section \<open>Properties of the extractor\<close>

subsection \<open>Strands and lengths\<close>




lemma Length_summary_row: "Length (summary_row tc an r) = stop r - start r + 1"
  by (simp add: summary_row_def Let_def)

lemma sint_sub_add_one:
  fixes e s :: int64
  assumes "- (2 ^ 63) \<le> sint e - sint s + 1" and "sint e - sint s + 1 < 2 ^ 63"
  shows "sint (e - s + 1) = sint e - sint s + 1"
proof -
  have one: "signed_take_bit 63 (1::int) = 1"
    by (simp add: signed_take_bit_int_eq_self)
  have "sint (e - s + 1) = signed_take_bit 63 (sint (e - s) + sint (1::int64))"
    by (simp only: sint_word_ariths(1)) simp
  also have "sint (e - s) = signed_take_bit 63 (sint e - sint s)"
    by (simp only: sint_word_ariths(2)) simp
  also have "sint (1::int64) = signed_take_bit 63 1"
    by (simp add: one)
  also have "signed_take_bit 63 (signed_take_bit 63 (sint e - sint s) + signed_take_bit 63 1)
      = signed_take_bit 63 (sint e - sint s + 1)"
    by (rule signed_take_bit_add)
  also have "\<dots> = sint e - sint s + 1"
    using assms by (rule signed_take_bit_int_eq_self)
  finally show ?thesis .
qed

subsection \<open>The polarity class\<close>










subsection \<open>The aggregation\<close>




section \<open>Properties of the reconciliation\<close>

subsection \<open>Integers as text\<close>

lemma digit_cases:
  "d < 10 \<Longrightarrow> d = 0 \<or> d = 1 \<or> d = 2 \<or> d = 3 \<or> d = 4 \<or> d = 5 \<or> d = 6 \<or> d = 7 \<or> d = 8 \<or> d = (9::nat)"
  by arith

lemma digit_val_char: "d < 10 \<Longrightarrow> digit_val (digit_char d) = d"
  by (drule digit_cases) (auto simp: digit_val_def digit_char_def)

lemma is_digit_char: "d < 10 \<Longrightarrow> is_digit (digit_char d)"
  by (drule digit_cases) (auto simp: is_digit_def digit_char_def)

lemma digit_char_not_sign:
  "d < 10 \<Longrightarrow> digit_char d \<noteq> CHR ''-''" "d < 10 \<Longrightarrow> digit_char d \<noteq> CHR ''+''"
  by (drule digit_cases, auto simp: digit_char_def)+

lemma digits_not_Nil: "digits n \<noteq> []"
  by (subst digits.simps) simp

lemma digits_all_digit: "list_all is_digit (digits n)"
  by (induction n rule: digits.induct) (subst digits.simps, simp add: is_digit_char)

lemma digits_value: "foldl (\<lambda>a c. 10 * a + digit_val c) 0 (digits n) = n"
  by (induction n rule: digits.induct) (subst digits.simps, simp add: digit_val_char)

lemma nat_of_digits_digits: "nat_of_digits (digits n) = Some n"
  by (simp add: nat_of_digits_def digits_not_Nil digits_all_digit digits_value)

lemma hd_digits: "hd (digits n) \<noteq> CHR ''-'' \<and> hd (digits n) \<noteq> CHR ''+''"
proof (induction n rule: digits.induct)
  case (1 n)
  show ?case
  proof (cases "n < 10")
    case True
    then show ?thesis
      by (simp add: digits.simps [of n] digit_char_not_sign)
  next
    case False
    with "1" show ?thesis
      by (simp add: digits.simps [of n] digits_not_Nil hd_append)
  qed
qed

lemma int_of_str_of_int: "int_of_str (str_of_int n) = Some n"
proof (cases "n < 0")
  case True
  then show ?thesis
    by (simp add: int_of_str_def str_of_int_def nat_of_digits_digits)
next
  case False
  obtain c cs where cs: "digits (nat n) = c # cs"
    using digits_not_Nil [of "nat n"] by (cases "digits (nat n)") auto
  with hd_digits [of "nat n"] have "c \<noteq> CHR ''-''" "c \<noteq> CHR ''+''" by auto
  with False cs nat_of_digits_digits [of "nat n"] show ?thesis
    by (simp add: int_of_str_def str_of_int_def)
qed

lemma str_of_int_inj: "str_of_int m = str_of_int n \<Longrightarrow> m = n"
  by (metis int_of_str_of_int option.inject)

lemma ints_of_missing:
  "ints_of (set (map str_of_int col) - leafs) = Some {n \<in> set col. str_of_int n \<notin> leafs}"
proof -
  let ?S = "set (map str_of_int col) - leafs"
  have "None \<notin> int_of_str ` ?S"
    by (auto simp: int_of_str_of_int)
  moreover have "(the \<circ> int_of_str) ` ?S = {n \<in> set col. str_of_int n \<notin> leafs}"
  proof (intro set_eqI iffI)
    fix n assume "n \<in> (the \<circ> int_of_str) ` ?S"
    then show "n \<in> {n \<in> set col. str_of_int n \<notin> leafs}"
      by (auto simp: int_of_str_of_int)
  next
    fix n assume "n \<in> {n \<in> set col. str_of_int n \<notin> leafs}"
    then have "str_of_int n \<in> ?S" and "(the \<circ> int_of_str) (str_of_int n) = n"
      by (simp_all add: int_of_str_of_int)
    then show "n \<in> (the \<circ> int_of_str) ` ?S"
      by (metis imageI)
  qed
  ultimately show ?thesis
    by (simp add: ints_of_def)
qed

lemma missing_strings:
  "set (map str_of_int col) - set (leaves (tree_of ncbi col)) = str_of_int ` missing_ids ncbi col"
  by (auto simp: missing_ids_def)

lemma missing_empty_iff:
  "set (map str_of_int col) - set (leaves (tree_of ncbi col)) = {} \<longleftrightarrow> missing_ids ncbi col = {}"
  unfolding missing_strings by simp

subsection \<open>Counting calls\<close>

lemma tree_constructions_append [simp]:
  "tree_constructions (xs @ ys) = tree_constructions xs + tree_constructions ys"
  by (simp add: tree_constructions_def)

lemma substitution_rounds_append [simp]:
  "substitution_rounds (xs @ ys) = substitution_rounds xs + substitution_rounds ys"
  by (simp add: substitution_rounds_def)

lemma validade_tree_calls [simp]:
  "tree_constructions (snd (validade_tree t taxa)) = 0"
  "substitution_rounds (snd (validade_tree t taxa)) = 0"
  by (simp_all add: validade_tree_def Let_def tree_constructions_def substitution_rounds_def)

lemma validade_tree_fst:
  "fst (validade_tree t taxa) = (taxa - set (leaves t), set (leaves t) - taxa)"
  by (simp add: validade_tree_def Let_def)

lemma ints_of_missing_ids:
  "ints_of (str_of_int ` set col - set (leaves (tree_of ncbi col))) = Some (missing_ids ncbi col)"
  using ints_of_missing [of col "set (leaves (tree_of ncbi col))"]
  by (simp add: missing_ids_def)

lemma missing_subset_iff:
  "str_of_int ` set col \<subseteq> set (leaves (tree_of ncbi col)) \<longleftrightarrow> missing_ids ncbi col = {}"
  using missing_empty_iff [of col ncbi] by simp

lemma trees_written_append [simp]:
  "trees_written (xs @ ys) = trees_written xs @ trees_written ys"
  by (simp add: trees_written_def)

lemma trees_written_simps [simp]:
  "trees_written [] = []"
  "trees_written (Log l m # ev) = trees_written ev"
  "trees_written (LogSet l m s # ev) = trees_written ev"
  "trees_written (GetTopology c # ev) = trees_written ev"
  "trees_written (FirstDescendants d # ev) = trees_written ev"
  "trees_written (TreeWrite t # ev) = t # trees_written ev"
  "trees_written (SinkCsv f # ev) = trees_written ev"
  by (simp_all add: trees_written_def)

lemma tree_constructions_simps [simp]:
  "tree_constructions [] = 0"
  "tree_constructions (Log l m # ev) = tree_constructions ev"
  "tree_constructions (LogSet l m s # ev) = tree_constructions ev"
  "tree_constructions (GetTopology c # ev) = Suc (tree_constructions ev)"
  "tree_constructions (FirstDescendants d # ev) = tree_constructions ev"
  "tree_constructions (TreeWrite t # ev) = tree_constructions ev"
  "tree_constructions (SinkCsv f # ev) = tree_constructions ev"
  by (simp_all add: tree_constructions_def)

lemma substitution_rounds_simps [simp]:
  "substitution_rounds [] = 0"
  "substitution_rounds (Log l m # ev) = substitution_rounds ev"
  "substitution_rounds (LogSet l m s # ev) = substitution_rounds ev"
  "substitution_rounds (GetTopology c # ev) = substitution_rounds ev"
  "substitution_rounds (FirstDescendants d # ev) = Suc (substitution_rounds ev)"
  "substitution_rounds (TreeWrite t # ev) = substitution_rounds ev"
  "substitution_rounds (SinkCsv f # ev) = substitution_rounds ev"
  by (simp_all add: substitution_rounds_def)

lemma validade_tree_writes [simp]: "trees_written (snd (validade_tree t taxa)) = []"
  by (simp add: validade_tree_def Let_def)

text \<open>The second replacement, from the column \<open>tt\<close> that the first one wrote.\<close>

lemma second_replacement_fst:
  "fst (second_replacement ncbi tsv tt (str_of_int ` set tt - set (leaves (tree_of ncbi tt)))) =
     (if missing_ids ncbi (substitute ncbi tt) = {}
      then Inr (with_column ''taxon_tree'' (map IntC (substitute ncbi tt)) tsv,
                tree_of ncbi (substitute ncbi tt))
      else Inl (SystemExit 1))"
  by (simp add: second_replacement_def ints_of_missing_ids Let_def case_prod_beta
      validade_tree_fst substitute_def [symmetric] tree_of_def [symmetric] missing_subset_iff)

lemma second_replacement_calls:
  "tree_constructions (snd (second_replacement ncbi tsv tt
      (str_of_int ` set tt - set (leaves (tree_of ncbi tt))))) = 1"
  "substitution_rounds (snd (second_replacement ncbi tsv tt
      (str_of_int ` set tt - set (leaves (tree_of ncbi tt))))) = 1"
  "trees_written (snd (second_replacement ncbi tsv tt
      (str_of_int ` set tt - set (leaves (tree_of ncbi tt))))) = []"
  by (simp_all add: second_replacement_def ints_of_missing_ids Let_def case_prod_beta)


text \<open>The first replacement, from the column \<open>ncbi_taxid\<close>.\<close>

lemma first_replacement_fst:
  "fst (first_replacement ncbi tsv ids (str_of_int ` set ids - set (leaves (tree_of ncbi ids)))) =
     (if missing_ids ncbi (substitute ncbi ids) = {}
      then Inr (with_column ''taxon_tree'' (map IntC (substitute ncbi ids)) tsv,
                tree_of ncbi (substitute ncbi ids))
      else if missing_ids ncbi (substitute ncbi (substitute ncbi ids)) = {}
      then Inr (with_column ''taxon_tree'' (map IntC (substitute ncbi (substitute ncbi ids)))
                  (with_column ''taxon_tree'' (map IntC (substitute ncbi ids)) tsv),
                tree_of ncbi (substitute ncbi (substitute ncbi ids)))
      else Inl (SystemExit 1))"
  by (simp add: first_replacement_def ints_of_missing_ids Let_def case_prod_beta
      validade_tree_fst substitute_def [symmetric] tree_of_def [symmetric] missing_subset_iff
      second_replacement_fst)

lemma first_replacement_calls:
  "tree_constructions (snd (first_replacement ncbi tsv ids
      (str_of_int ` set ids - set (leaves (tree_of ncbi ids))))) =
     (if missing_ids ncbi (substitute ncbi ids) = {} then 1 else 2)"
  "substitution_rounds (snd (first_replacement ncbi tsv ids
      (str_of_int ` set ids - set (leaves (tree_of ncbi ids))))) =
     (if missing_ids ncbi (substitute ncbi ids) = {} then 1 else 2)"
  "trees_written (snd (first_replacement ncbi tsv ids
      (str_of_int ` set ids - set (leaves (tree_of ncbi ids))))) = []"
  by (simp_all add: first_replacement_def ints_of_missing_ids Let_def case_prod_beta
      validade_tree_fst substitute_def [symmetric] tree_of_def [symmetric] missing_subset_iff
      second_replacement_calls)

text \<open>The whole reconciliation, for a table whose column \<open>ncbi_taxid\<close> holds \<open>ids\<close>.\<close>

lemma int_cells_IntC [simp]: "int_cells (map IntC ids) = Some ids"
  by (induction ids) simp_all

lemma reconcile_fst:
  assumes "map_of tsv ''ncbi_taxid'' = Some (map IntC ids)"
  shows "fst (reconcile ncbi tsv) =
     (if missing_ids ncbi ids = {}
      then Inr (if extra_leaves ncbi ids = {}
                then with_column ''taxon_tree'' (map IntC ids) tsv else tsv,
                tree_of ncbi ids)
      else if missing_ids ncbi (substitute ncbi ids) = {}
      then Inr (with_column ''taxon_tree'' (map IntC (substitute ncbi ids)) tsv,
                tree_of ncbi (substitute ncbi ids))
      else if missing_ids ncbi (substitute ncbi (substitute ncbi ids)) = {}
      then Inr (with_column ''taxon_tree'' (map IntC (substitute ncbi (substitute ncbi ids)))
                  (with_column ''taxon_tree'' (map IntC (substitute ncbi ids)) tsv),
                tree_of ncbi (substitute ncbi (substitute ncbi ids)))
      else Inl (SystemExit 1))"
  using assms
  by (simp add: reconcile_def Let_def case_prod_beta validade_tree_fst
      tree_of_def [symmetric] missing_subset_iff first_replacement_fst extra_leaves_def)

lemma reconcile_calls:
  assumes "map_of tsv ''ncbi_taxid'' = Some (map IntC ids)"
  shows "tree_constructions (snd (reconcile ncbi tsv)) =
     (if missing_ids ncbi ids = {} then 1
      else if missing_ids ncbi (substitute ncbi ids) = {} then 2 else 3)"
    and "substitution_rounds (snd (reconcile ncbi tsv)) =
     (if missing_ids ncbi ids = {} then 0
      else if missing_ids ncbi (substitute ncbi ids) = {} then 1 else 2)"
  using assms
  by (simp_all add: reconcile_def Let_def case_prod_beta validade_tree_fst
      tree_of_def [symmetric] missing_subset_iff first_replacement_fst first_replacement_calls
      split: sum.splits)

lemma reconcile_writes:
  assumes "map_of tsv ''ncbi_taxid'' = Some (map IntC ids)"
  shows "trees_written (snd (reconcile ncbi tsv)) =
     (case fst (reconcile ncbi tsv) of Inl e \<Rightarrow> [] | Inr (tsv', tree) \<Rightarrow> [tree])"
  using assms
  by (simp add: reconcile_def Let_def case_prod_beta validade_tree_fst
      tree_of_def [symmetric] missing_subset_iff first_replacement_fst first_replacement_calls
      split: sum.splits)

subsection \<open>Rules to evaluate the model on concrete inputs\<close>

lemma digits_small: "n < 10 \<Longrightarrow> digits n = [digit_char n]"
  by (simp add: digits.simps [of n])

lemma digits_large: "\<not> n < 10 \<Longrightarrow> digits n = digits (n div 10) @ [digit_char (n mod 10)]"
  by (simp add: digits.simps [of n])

lemma str_of_int_nonneg: "0 \<le> n \<Longrightarrow> str_of_int n = digits (nat n)"
  by (simp add: str_of_int_def)

lemmas str_eval = str_of_int_nonneg digits_small digits_large digit_char_def

lemma missing_ids_filter:
  "missing_ids ncbi col = set (filter (\<lambda>n. str_of_int n \<notin> set (leaves (tree_of ncbi col))) col)"
  by (auto simp: missing_ids_def)

lemma leaves_star:
  "leaves (star_tree tips) = (if tips = [] then [''root''] else map str_of_int tips)"
  by (induction tips) (simp_all add: star_tree_def comp_def)

lemma tree_of_toy:
  "tree_of (toy_ncbi known extra) col = star_tree (filter (\<lambda>n. n \<in> set known) col @ extra)"
  by (simp add: tree_of_def toy_ncbi_def)

lemma species_toy:
  "species (toy_ncbi known extra) = [(105, 100), (102, 100), (110, 100), (200, 102), (300, 200)]"
  by (simp add: toy_ncbi_def)

lemma toy_missing_100: "missing_ids (toy_ncbi [] []) [100] = {100}"
  by (simp add: missing_ids_filter tree_of_toy leaves_star str_eval)

lemma toy_first_descendant_100: "get_first_descendants (toy_ncbi k e) {100} 100 = Some 102"
  by (simp add: get_first_descendants_def species_toy)

lemma toy_substitute_100: "substitute (toy_ncbi [] []) [100] = [102]"
  by (simp add: substitute_def replace_strict_def toy_missing_100 toy_first_descendant_100)

lemma toy_missing_102: "missing_ids (toy_ncbi [] []) [102] = {102}"
  by (simp add: missing_ids_filter tree_of_toy leaves_star str_eval)

lemma toy_substitute_102: "substitute (toy_ncbi [] []) [102] = [200]"
  by (simp add: substitute_def replace_strict_def toy_missing_102 get_first_descendants_def species_toy)

lemma toy_missing_200: "missing_ids (toy_ncbi [] []) [200] = {200}"
  by (simp add: missing_ids_filter tree_of_toy leaves_star str_eval)

lemma toy_missing_9606: "missing_ids (toy_ncbi [9606] [10090]) [9606] = {}"
  by (simp add: missing_ids_filter tree_of_toy leaves_star str_eval)

lemma toy_extra_9606: "extra_leaves (toy_ncbi [9606] [10090]) [9606] = {''10090''}"
  by (simp add: extra_leaves_def tree_of_toy leaves_star str_eval)

subsection \<open>Columns of a table\<close>










lemma length_substitute [simp]: "length (substitute ncbi col) = length col"
  by (simp add: substitute_def replace_strict_def)

subsection \<open>The first descendants\<close>




subsection \<open>The events of a whole run\<close>




lemma toy_taxid_column: "map_of (toy_tsv n) ''ncbi_taxid'' = Some (map IntC [n])"
  by (simp add: toy_tsv_def)

subsection \<open>What the reconciliation leaves of the table\<close>


lemma identity_remapping_when_clean:
  assumes "map_of tsv ''ncbi_taxid'' = Some (map IntC ids)"
    and "missing_ids ncbi ids = {}" and "extra_leaves ncbi ids = {}"
  shows "fst (reconcile ncbi tsv) = Inr (with_column ''taxon_tree'' (map IntC ids) tsv, tree_of ncbi ids)"
  using assms(2,3) by (simp add: reconcile_fst [OF assms(1)])

subsection \<open>The left join\<close>














lemma upt_3: "[0..<3] = [0, 1, 2]"
  by (simp add: upt_rec)


lemma join_toy_one:
  "join_left toy_igs one_tsv ''AN'' =
     Inr [(''ID'', [StrC ''a1'', StrC ''a2'', StrC ''b1'']),
          (''AN'', [StrC ''A'', StrC ''A'', StrC ''B'']),
          (''Polarity'', [StrC ''++'', StrC ''+-'', StrC ''-+'']),
          (''Length'', [IntC 100, IntC 10, IntC 1]),
          (''Species'', [StrC ''s1'', StrC ''s1'', Null])]"
  by (simp add: join_left_def toy_igs_def one_tsv_def join_indices_def matches_def Let_def
      right_columns_def gather_def gather_opt_def columns_def upt_3 upt_rec [of 0 1])

subsection \<open>The rows of the merged table\<close>







subsection \<open>The columns of the merged table\<close>










subsection \<open>A whole run on a concrete input\<close>








section \<open>The claims\<close>

text \<open>
  C1. For a table whose column \<open>ncbi_taxid\<close> holds the integers \<open>ids\<close>, the
  reconciliation ends the process with exit status 1 exactly when taxids are missing
  from the first tree, from the tree after the first replacement and from the tree after
  the second one; it has then built three trees, asked for descendants twice and written
  no tree. No run builds more than three trees or asks for descendants more than twice.
  In every other case, that is as soon as one validation finds nothing missing, the run
  returns its table and writes the tree.
\<close>

theorem retry_budget:
  assumes "map_of tsv ''ncbi_taxid'' = Some (map IntC ids)"
  shows "(fst (reconcile ncbi tsv) = Inl (SystemExit 1)) =
           (missing_ids ncbi ids \<noteq> {}
            \<and> missing_ids ncbi (substitute ncbi ids) \<noteq> {}
            \<and> missing_ids ncbi (substitute ncbi (substitute ncbi ids)) \<noteq> {})
     \<and> (fst (reconcile ncbi tsv) = Inl (SystemExit 1) \<longrightarrow>
           tree_constructions (snd (reconcile ncbi tsv)) = 3
           \<and> substitution_rounds (snd (reconcile ncbi tsv)) = 2
           \<and> trees_written (snd (reconcile ncbi tsv)) = [])
     \<and> tree_constructions (snd (reconcile ncbi tsv)) \<le> 3
     \<and> substitution_rounds (snd (reconcile ncbi tsv)) \<le> 2
     \<and> (fst (reconcile ncbi tsv) \<noteq> Inl (SystemExit 1) \<longrightarrow>
           (\<exists>tsv' tree. fst (reconcile ncbi tsv) = Inr (tsv', tree)
              \<and> trees_written (snd (reconcile ncbi tsv)) = [tree]))"
  using reconcile_calls [OF assms, of ncbi] reconcile_writes [OF assms, of ncbi]
  by (simp add: reconcile_fst [OF assms])

theorem retry_budget_witness:
  "fst (reconcile (toy_ncbi [] []) (toy_tsv 100)) = Inl (SystemExit 1)
     \<and> tree_constructions (snd (reconcile (toy_ncbi [] []) (toy_tsv 100))) = 3
     \<and> substitution_rounds (snd (reconcile (toy_ncbi [] []) (toy_tsv 100))) = 2
     \<and> trees_written (snd (reconcile (toy_ncbi [] []) (toy_tsv 100))) = []"
proof -
  have col: "map_of (toy_tsv 100) ''ncbi_taxid'' = Some (map IntC [100])"
    by (simp add: toy_tsv_def)
  show ?thesis
    using retry_budget [OF col, of "toy_ncbi [] []"]
    by (simp add: toy_missing_100 toy_substitute_100 toy_missing_102 toy_substitute_102
        toy_missing_200)
qed

text \<open>
  C2, at an input where the code does not do what the claim says. The table has the one
  taxid 9606, and the first tree has the leaves 9606 and 10090: nothing is missing, one
  leaf is extra. The reconciliation returns the table as it came, without a column
  \<open>taxon_tree\<close>. (Without the extra leaf the column is written and equals \<open>ncbi_taxid\<close>:
  \<open>identity_remapping_when_clean\<close>.)
\<close>

theorem taxon_tree_absent_with_extra_leaf:
  "fst (reconcile (toy_ncbi [9606] [10090]) (toy_tsv 9606))
       = Inr (toy_tsv 9606, star_tree [9606, 10090])
     \<and> missing_ids (toy_ncbi [9606] [10090]) [9606] = {}
     \<and> map_of (toy_tsv 9606) ''taxon_tree'' = None"
  by (simp add: reconcile_fst [OF toy_taxid_column] toy_missing_9606 toy_extra_9606 tree_of_toy)
     (simp add: toy_tsv_def)








text \<open>
  C6 (as amended). The columns \<open>start\<close> and \<open>end\<close> are 64-bit integers, and so is their
  difference: whenever \<open>end - start + 1\<close> lies in the range of a signed 64-bit integer,
  the derived length is that number, both endpoints counted. Outside the range the
  length wraps around.
\<close>

theorem Length_inclusive:
  assumes "- (2 ^ 63) \<le> sint (stop r) - sint (start r) + 1"
    and "sint (stop r) - sint (start r) + 1 < 2 ^ 63"
  shows "sint (Length (summary_row tc an r)) = sint (stop r) - sint (start r) + 1"
  using assms by (simp add: Length_summary_row sint_sub_add_one)

theorem Length_inclusive_witness:
  "sint (Length (summary_row toy_patterns ''NC_000932'' row_100_199)) = 100"
  using Length_inclusive [of row_100_199 toy_patterns "''NC_000932''"]
  by (simp add: row_100_199_def)

text \<open>
  C6 as stated fails: a row from 0 to \<open>2 ^ 63 - 1\<close> spans \<open>2 ^ 63\<close> positions, and its
  derived length is \<open>- (2 ^ 63)\<close>.
\<close>

theorem Length_wraps_counterexample:
  "sint (Length (summary_row toy_patterns ''NC_000932'' row_overflow))
     \<noteq> sint (stop row_overflow) - sint (start row_overflow) + 1"
  by (simp add: Length_summary_row row_overflow_def)









end
